theory Spec2Isabelle
  imports Main "HOL-Library.Sublist" "HOL-Library.Multiset"
begin

section \<open>Decoded JSON values and the Python operations the scraper applies to them\<close>

text \<open>
  Every payload the scraper handles comes out of \<^verbatim>\<open>r.json()\<close>: \<^verbatim>\<open>None\<close>, a bool, an int,
  a float, a str, a list or a dict with str keys. A Python str is kept as the byte
  sequence of its UTF-8 encoding. A dict is kept as the association list of its items in
  insertion order; a dict has every key once, and lookup reads the first entry of a key.

  The scraper only ever asks three things of a float: its truth value, its \<^verbatim>\<open>repr\<close> and
  its \<^verbatim>\<open>int()\<close>. A float is kept as these three observations.
\<close>

datatype exn =
    AttributeError
  | KeyError string
  | TypeError
  | ValueError
  | OverflowError
  | ConnectionError
  | Timeout
  | HTTPError nat
  | JSONDecodeError

record pyfloat =
  fl_nonzero :: bool
  fl_repr :: string
  fl_int :: "exn + int"

datatype json =
    JNull
  | JBool bool
  | JInt int
  | JFloat pyfloat
  | JStr string
  | JArr "json list"
  | JObj "(string \<times> json) list"

text \<open>\<^verbatim>\<open>bool(v)\<close>, the test behind \<^verbatim>\<open>if v\<close>, \<^verbatim>\<open>not v\<close> and \<^verbatim>\<open>v or w\<close>.\<close>

fun truthy :: "json \<Rightarrow> bool" where
  "truthy JNull = False"
| "truthy (JBool b) = b"
| "truthy (JInt n) = (n \<noteq> 0)"
| "truthy (JFloat f) = fl_nonzero f"
| "truthy (JStr s) = (s \<noteq> [])"
| "truthy (JArr xs) = (xs \<noteq> [])"
| "truthy (JObj kvs) = (kvs \<noteq> [])"

text \<open>\<^verbatim>\<open>a or b\<close>.\<close>

definition py_or :: "json \<Rightarrow> json \<Rightarrow> json" where
  "py_or a b = (if truthy a then a else b)"

text \<open>\<^verbatim>\<open>d.get(k)\<close> on a dict: the value, or \<^verbatim>\<open>None\<close> for a key that is not there.\<close>

definition dict_get :: "(string \<times> json) list \<Rightarrow> string \<Rightarrow> json" where
  "dict_get kvs k = (case map_of kvs k of None \<Rightarrow> JNull | Some v \<Rightarrow> v)"

text \<open>\<^verbatim>\<open>v.get(k)\<close> on any decoded value: only a dict has the method.\<close>

fun py_get :: "json \<Rightarrow> string \<Rightarrow> exn + json" where
  "py_get (JObj kvs) k = Inr (dict_get kvs k)"
| "py_get _ k = Inl AttributeError"

text \<open>\<^verbatim>\<open>v[k]\<close> with a str key: a dict without the key raises KeyError, anything else
  TypeError.\<close>

fun py_subscript :: "json \<Rightarrow> string \<Rightarrow> exn + json" where
  "py_subscript (JObj kvs) k =
     (case map_of kvs k of None \<Rightarrow> Inl (KeyError k) | Some v \<Rightarrow> Inr v)"
| "py_subscript _ k = Inl TypeError"

text \<open>Sequencing of steps that may raise: the first exception ends the computation.\<close>

definition and_then :: "exn + 'a \<Rightarrow> ('a \<Rightarrow> exn + 'b) \<Rightarrow> exn + 'b" where
  "and_then m f = (case m of Inl e \<Rightarrow> Inl e | Inr v \<Rightarrow> f v)"

subsection \<open>Decimal rendering\<close>

definition digit_char :: "nat \<Rightarrow> char" where
  "digit_char d = ''0123456789'' ! (d mod 10)"

fun show_nat :: "nat \<Rightarrow> string" where
  "show_nat n = (if n < 10 then [digit_char n] else show_nat (n div 10) @ [digit_char n])"

declare show_nat.simps [simp del]

definition show_int :: "int \<Rightarrow> string" where
  "show_int i = (if i < 0 then CHR ''-'' # show_nat (nat (- i)) else show_nat (nat i))"

subsection \<open>Library functions\<close>

text \<open>
  The scraper calls into the Python runtime and its standard library for parsing and
  printing dates, for \<^verbatim>\<open>repr\<close> of containers and exceptions, for \<^verbatim>\<open>int\<close> of a str and for
  \<^verbatim>\<open>json.dumps\<close>. None of these is code of the repository; the functions of the repository
  take them as the fields of one record. \<open>fromisoformat\<close> and \<open>int_of_str\<close> return \<open>None\<close>
  where the library raises ValueError, the one exception they raise on a str.
\<close>

record datetime =
  year :: nat
  month :: nat
  day :: nat
  hour :: nat
  minute :: nat
  second :: nat

record pylib =
  fromisoformat :: "string \<Rightarrow> datetime option"
  strftime_mdY :: "datetime \<Rightarrow> string"
  repr_container :: "json \<Rightarrow> string"
  int_of_str :: "string \<Rightarrow> int option"
  json_dumps :: "json \<Rightarrow> string"
  repr_exc :: "exn \<Rightarrow> string"

text \<open>\<^verbatim>\<open>str(v)\<close>, which is also what an f-string field \<^verbatim>\<open>{v}\<close> renders.\<close>

fun py_str :: "'a pylib_scheme \<Rightarrow> json \<Rightarrow> string" where
  "py_str L JNull = ''None''"
| "py_str L (JBool b) = (if b then ''True'' else ''False'')"
| "py_str L (JInt n) = show_int n"
| "py_str L (JFloat f) = fl_repr f"
| "py_str L (JStr s) = s"
| "py_str L v = repr_container L v"

section \<open>The date formatter\<close>

text \<open>
  \<^verbatim>\<open>
  def _fmt_date(iso: Optional[str]) -> str:
      if not iso:
          return ""
      try:
          return datetime.fromisoformat(iso.replace("Z", "")).strftime("%m/%d/%Y")
      except ValueError:
          return ""
  \<close>
  \<^verbatim>\<open>iso.replace\<close> exists on a str only: a truthy value of any other JSON type raises
  AttributeError, which the handler does not catch.
\<close>

definition replace_Z :: "string \<Rightarrow> string" where
  "replace_Z s = filter (\<lambda>c. c \<noteq> CHR ''Z'') s"

definition fmt_date :: "'a pylib_scheme \<Rightarrow> json \<Rightarrow> exn + string" where
  "fmt_date L v =
     (if \<not> truthy v then Inr ''''
      else case v of
        JStr s \<Rightarrow>
          (case fromisoformat L (replace_Z s) of
             None \<Rightarrow> Inr ''''
           | Some dt \<Rightarrow> Inr (strftime_mdY L dt))
      | _ \<Rightarrow> Inl AttributeError)"

section \<open>String trimming\<close>

text \<open>
  \<^verbatim>\<open>s.strip()\<close> removes the white space of Unicode at both ends: the code points
  U+0009..U+000D, U+001C..U+0020, U+0085, U+00A0, U+1680, U+2000..U+200A, U+2028, U+2029,
  U+202F, U+205F and U+3000, listed here by their UTF-8 encodings.
\<close>

definition whitespace :: "string list" where
  "whitespace =
     map (\<lambda>c. [c])
       [CHR 0x09, CHR 0x0A, CHR 0x0B, CHR 0x0C, CHR 0x0D,
        CHR 0x1C, CHR 0x1D, CHR 0x1E, CHR 0x1F, CHR 0x20] @
     [[CHR 0xC2, CHR 0x85], [CHR 0xC2, CHR 0xA0], [CHR 0xE1, CHR 0x9A, CHR 0x80]] @
     map (\<lambda>c. [CHR 0xE2, CHR 0x80, c])
       [CHR 0x80, CHR 0x81, CHR 0x82, CHR 0x83, CHR 0x84, CHR 0x85, CHR 0x86, CHR 0x87,
        CHR 0x88, CHR 0x89, CHR 0x8A, CHR 0xA8, CHR 0xA9, CHR 0xAF] @
     [[CHR 0xE2, CHR 0x81, CHR 0x9F], [CHR 0xE3, CHR 0x80, CHR 0x80]]"

text \<open>Remove from the front of \<open>s\<close> every leading occurrence of one of the tokens.\<close>

function strip_left :: "string list \<Rightarrow> string \<Rightarrow> string" where
  "strip_left toks s =
     (case find (\<lambda>w. w \<noteq> [] \<and> prefix w s) toks of
        None \<Rightarrow> s
      | Some w \<Rightarrow> strip_left toks (drop (length w) s))"
  by pat_completeness auto
termination
proof (relation "measure (\<lambda>(toks, s). length s)")
  show "wf (measure (\<lambda>(toks, s). length s))" by simp
next
  fix toks :: "string list" and s w :: string
  assume "find (\<lambda>w. w \<noteq> [] \<and> prefix w s) toks = Some w"
  then have "w \<noteq> []" and "prefix w s"
    by (auto simp: find_Some_iff)
  then have "0 < length w" and "length w \<le> length s"
    by (simp_all add: prefix_length_le)
  then have "length s - length w < length s"
    by arith
  then show "((toks, drop (length w) s), (toks, s)) \<in> measure (\<lambda>(toks, s). length s)"
    by simp
qed

declare strip_left.simps [simp del]

definition py_strip :: "string \<Rightarrow> string" where
  "py_strip s = rev (strip_left (map rev whitespace) (rev (strip_left whitespace s)))"

text \<open>\<^verbatim>\<open>s.rstrip(chars)\<close>: drop from the end every character that is one of \<open>chars\<close>.\<close>

definition py_rstrip :: "string \<Rightarrow> string \<Rightarrow> string" where
  "py_rstrip chars s = rev (dropWhile (\<lambda>c. c \<in> set chars) (rev s))"

section \<open>The normalizer\<close>

text \<open>
  The two dataclasses. The annotations say \<^verbatim>\<open>Optional[str]\<close>, but \<^verbatim>\<open>parse_event_api\<close>
  stores \<^verbatim>\<open>data.get(k) or ""\<close> as it is in \<^verbatim>\<open>name\<close>, \<^verbatim>\<open>host\<close>, \<^verbatim>\<open>location\<close>, \<^verbatim>\<open>website\<close>
  and \<^verbatim>\<open>email\<close>: these fields hold whatever truthy value the payload has, so their type
  here is \<open>json\<close>. The other fields go through \<^verbatim>\<open>str\<close>, an f-string or \<^verbatim>\<open>_fmt_date\<close>.
\<close>

record EventRecord =
  event_id :: string
  event_url :: string
  name :: json
  tournament_type :: string
  host :: json
  location :: json
  address :: string
  website :: json
  email :: json
  start_date :: string
  end_date :: string

record DivisionRecord =
  description :: string
  entry_fee :: string
  event_division_assignment_id :: string
  division_event_id :: string
  maximum_teams :: string

text \<open>
  \<^verbatim>\<open>parse_event_api\<close>, statement by statement. The first \<^verbatim>\<open>data.get\<close> raises on a payload
  that is not a dict; after it \<open>data\<close> is a dict and only the nested lookups
  (\<^verbatim>\<open>(data.get("affiliation") or {}).get(...)\<close> and the like) and \<^verbatim>\<open>_fmt_date\<close> can raise.
\<close>

fun parse_event_api :: "'a pylib_scheme \<Rightarrow> json \<Rightarrow> exn + EventRecord" where
  "parse_event_api L (JObj data) =
     (let rec_event_id = py_str L (py_or (dict_get data ''eventId'') (JStr ''''));
          rec_event_url =
            (if rec_event_id \<noteq> ''''
             then ''https://www.advancedeventsystems.com/events/'' @ rec_event_id
             else '''');
          rec_name = py_or (dict_get data ''name'') (JStr '''')
      in
      and_then (py_get (py_or (dict_get data ''affiliation'') (JObj [])) ''description'') (\<lambda>a.
      and_then (py_get (py_or (dict_get data ''eventType'') (JObj [])) ''description'') (\<lambda>t.
      let aff = py_or a (JStr '''');
          et = py_or t (JStr '''');
          rec_tournament_type =
            (if truthy aff \<or> truthy et
             then py_strip (py_str L aff @ '' '' @ py_str L et)
             else '''');
          rec_host =
            py_or (dict_get data ''hostName'')
              (py_or (dict_get data ''bossOrganizationName'') (JStr ''''));
          rec_location = py_or (dict_get data ''locationName'') (JStr '''');
          addr = py_or (dict_get data ''address'') (JObj [])
      in
      and_then (py_get addr ''line1'') (\<lambda>l.
      and_then (py_get addr ''city'') (\<lambda>c.
      and_then (py_get addr ''state'') (\<lambda>st.
      and_then (py_get (py_or st (JObj [])) ''abbreviation'') (\<lambda>ab.
      and_then (py_get addr ''zip'') (\<lambda>z.
      let line1 = py_or l (JStr '''');
          city = py_or c (JStr '''');
          state_abbr = py_or ab (JStr '''');
          zip_code = py_or z (JStr '''');
          rec_address =
            py_rstrip '', ''
              (py_strip
                (py_str L line1 @ [CHR 0x0A] @ py_str L city @ '', '' @
                 py_str L state_abbr @ '' '' @ py_str L zip_code));
          rec_website = py_or (dict_get data ''website'') (JStr '''');
          rec_email = py_or (dict_get data ''email'') (JStr '''')
      in
      and_then (fmt_date L (dict_get data ''startDate'')) (\<lambda>sd.
      and_then (fmt_date L (dict_get data ''endDate'')) (\<lambda>ed.
      Inr \<lparr>event_id = rec_event_id, event_url = rec_event_url, name = rec_name,
           tournament_type = rec_tournament_type, host = rec_host,
           location = rec_location, address = rec_address, website = rec_website,
           email = rec_email, start_date = sd, end_date = ed\<rparr>))))))))))"
| "parse_event_api L _ = Inl AttributeError"

text \<open>\<^verbatim>\<open>parse_division_api\<close>: every field is \<^verbatim>\<open>str(data.get(k) or default)\<close>.\<close>

fun parse_division_api :: "'a pylib_scheme \<Rightarrow> json \<Rightarrow> exn + DivisionRecord" where
  "parse_division_api L (JObj data) =
     Inr \<lparr>description = py_str L (py_or (dict_get data ''description'') (JStr '''')),
          entry_fee = py_str L (py_or (dict_get data ''entryFee'') (JStr ''0'')),
          event_division_assignment_id =
            py_str L (py_or (dict_get data ''eventDivisionAssignmentId'') (JStr '''')),
          division_event_id = py_str L (py_or (dict_get data ''eventId'') (JStr '''')),
          maximum_teams = py_str L (py_or (dict_get data ''maximumTeams'') (JStr ''''))\<rparr>"
| "parse_division_api L _ = Inl AttributeError"

section \<open>The detail fetcher\<close>

text \<open>
  \<^verbatim>\<open>with self.sess.get(url, timeout=(5, 120)) as r: r.raise_for_status(); r.json()\<close> either
  raises (transport failure, time-out, error status, undecodable body) or yields the
  decoded body. What it does for a URL is up to the network: a \<open>network\<close> is that answer,
  and each fetcher returns, with its result, the list of the URLs it requested.
\<close>

type_synonym network = "string \<Rightarrow> exn + json"

text \<open>
  \<^verbatim>\<open>
  def _fetch_one_event(self, item: dict):
      event_id = item["eventId"]
      url = f"https://www.advancedeventsystems.com/api/landing/events/{event_id}"
      if event_id == None:
          event_scheduler_id = item["eventSchedulerId"]
          url = f"https://www.advancedeventsystems.com/api/landing/events/scheduler/{event_scheduler_id}"
      with self.sess.get(url, timeout=(5, 120)) as r:
          r.raise_for_status()
          data = r.json()
          return self.parse_event_api(data)
  \<close>
\<close>

definition event_detail_url :: "'a pylib_scheme \<Rightarrow> json \<Rightarrow> exn + string" where
  "event_detail_url L item =
     and_then (py_subscript item ''eventId'') (\<lambda>eid.
       if eid = JNull
       then and_then (py_subscript item ''eventSchedulerId'') (\<lambda>event_scheduler_id.
              Inr (''https://www.advancedeventsystems.com/api/landing/events/scheduler/'' @
                   py_str L event_scheduler_id))
       else Inr (''https://www.advancedeventsystems.com/api/landing/events/'' @
                 py_str L eid))"

definition fetch_one_event ::
  "'a pylib_scheme \<Rightarrow> network \<Rightarrow> json \<Rightarrow> string list \<times> (exn + EventRecord)" where
  "fetch_one_event L net item =
     (case event_detail_url L item of
        Inl e \<Rightarrow> ([], Inl e)
      | Inr url \<Rightarrow> ([url], and_then (net url) (parse_event_api L)))"

text \<open>\<^verbatim>\<open>int(v)\<close> on a decoded value.\<close>

fun py_int :: "'a pylib_scheme \<Rightarrow> json \<Rightarrow> exn + int" where
  "py_int L (JInt n) = Inr n"
| "py_int L (JBool b) = Inr (if b then 1 else 0)"
| "py_int L (JFloat f) = fl_int f"
| "py_int L (JStr s) = (case int_of_str L s of None \<Rightarrow> Inl ValueError | Some n \<Rightarrow> Inr n)"
| "py_int L _ = Inl TypeError"

text \<open>The code points of a str, each as its own UTF-8 byte sequence.\<close>

definition utf8_width :: "char \<Rightarrow> nat" where
  "utf8_width c =
     (let b = of_char c :: nat
      in if b < 0xC0 then 1 else if b < 0xE0 then 2 else if b < 0xF0 then 3 else 4)"

function code_points :: "string \<Rightarrow> string list" where
  "code_points s =
     (case s of
        [] \<Rightarrow> []
      | c # _ \<Rightarrow> take (utf8_width c) s # code_points (drop (utf8_width c) s))"
  by pat_completeness auto
termination
  by (relation "measure length") (auto simp: utf8_width_def Let_def)

declare code_points.simps [simp del]

text \<open>\<^verbatim>\<open>for d in v\<close>: the elements of a list, the keys of a dict, the characters of a str;
  no other decoded value is iterable.\<close>

fun py_iter :: "json \<Rightarrow> exn + json list" where
  "py_iter (JArr xs) = Inr xs"
| "py_iter (JObj kvs) = Inr (map (\<lambda>kv. JStr (fst kv)) kvs)"
| "py_iter (JStr s) = Inr (map JStr (code_points s))"
| "py_iter _ = Inl TypeError"

text \<open>A list comprehension \<^verbatim>\<open>[f(d) for d in ds]\<close>: the first call that raises ends it.\<close>

fun comprehension :: "('a \<Rightarrow> exn + 'b) \<Rightarrow> 'a list \<Rightarrow> exn + 'b list" where
  "comprehension f [] = Inr []"
| "comprehension f (d # ds) =
     and_then (f d) (\<lambda>y. and_then (comprehension f ds) (\<lambda>ys. Inr (y # ys)))"

text \<open>
  \<^verbatim>\<open>
  def _fetch_one_division(self, event: Dict[str, Any]) -> List[DivisionRecord]:
      event_id = event.get("eventId")
      if event_id is None:
          return []
      url = f"https://www.advancedeventsystems.com/api/landing/events/{int(event_id)}/divisions"
      with self.sess.get(url, timeout=(5, 120)) as r:
          r.raise_for_status()
          payload = r.json()
      divisions = (
          payload["value"]
          if isinstance(payload, dict) and "value" in payload
          else payload
      ) or []
      return [self.parse_division_api(d) for d in divisions]
  \<close>
\<close>

definition unwrap_value :: "json \<Rightarrow> json" where
  "unwrap_value payload =
     (case payload of
        JObj kvs \<Rightarrow> (case map_of kvs ''value'' of Some v \<Rightarrow> v | None \<Rightarrow> payload)
      | _ \<Rightarrow> payload)"

definition fetch_one_division ::
  "'a pylib_scheme \<Rightarrow> network \<Rightarrow> json \<Rightarrow> string list \<times> (exn + DivisionRecord list)" where
  "fetch_one_division L net event =
     (case py_get event ''eventId'' of
        Inl e \<Rightarrow> ([], Inl e)
      | Inr eid \<Rightarrow>
          if eid = JNull then ([], Inr [])
          else
            (case py_int L eid of
               Inl e \<Rightarrow> ([], Inl e)
             | Inr n \<Rightarrow>
                 (let url = ''https://www.advancedeventsystems.com/api/landing/events/'' @
                            show_int n @ ''/divisions''
                  in ([url],
                      and_then (net url) (\<lambda>payload.
                        let divisions = py_or (unwrap_value payload) (JArr [])
                        in and_then (py_iter divisions)
                             (comprehension (parse_division_api L)))))))"

section \<open>The two phases of \<^verbatim>\<open>run\<close>\<close>

text \<open>
  \<^verbatim>\<open>{"where": "detail", "message": repr(e), "item": json.dumps(item)[:500]}\<close>.
  \<^verbatim>\<open>json.dumps\<close> escapes everything outside ASCII, so the slice counts bytes.
\<close>

record ErrorRecord =
  err_where :: string
  err_message :: string
  err_item :: string

definition error_record :: "'a pylib_scheme \<Rightarrow> exn \<Rightarrow> json \<Rightarrow> ErrorRecord" where
  "error_record L e item =
     \<lparr>err_where = ''detail'', err_message = repr_exc L e,
      err_item = take 500 (json_dumps L item)\<rparr>"

text \<open>
  \<^verbatim>\<open>as_completed(futures)\<close> yields every future once, in the order they finish. That order
  is not the program's to choose: \<open>finish i\<close> is the instant at which the future submitted
  as number \<open>i\<close> finishes, and the futures come out sorted by it.
\<close>

definition as_completed :: "(nat \<Rightarrow> nat) \<Rightarrow> 'a list \<Rightarrow> 'a list" where
  "as_completed finish futures =
     map snd (sort_key (\<lambda>p. finish (fst p)) (enumerate 0 futures))"

text \<open>
  The body of the first loop of \<^verbatim>\<open>run\<close>, over the futures as they complete:
  \<^verbatim>\<open>
  try:
      recs = fut.result()
      if recs:
          division_records.extend(recs)
  except Exception as e:
      item = futures[fut]
      division_errors.append({...})
  \<close>
\<close>

fun division_loop ::
  "'a pylib_scheme \<Rightarrow> (json \<times> (exn + DivisionRecord list)) list \<Rightarrow>
   DivisionRecord list \<times> ErrorRecord list \<Rightarrow> DivisionRecord list \<times> ErrorRecord list" where
  "division_loop L [] acc = acc"
| "division_loop L ((item, Inr recs) # futs) (division_records, division_errors) =
     division_loop L futs
       (if recs \<noteq> [] then division_records @ recs else division_records, division_errors)"
| "division_loop L ((item, Inl e) # futs) (division_records, division_errors) =
     division_loop L futs (division_records, division_errors @ [error_record L e item])"

text \<open>
  \<^verbatim>\<open>futures = {ex.submit(self._fetch_one_division, event): event for event in events}\<close>:
  one future for each item, in the order of the catalog. A future is kept as its item
  paired with what its call returns or raises; the requests of the future submitted as
  number \<open>i\<close> are answered by \<open>net i\<close>.
\<close>

definition division_futures ::
  "'a pylib_scheme \<Rightarrow> (nat \<Rightarrow> network) \<Rightarrow> json list \<Rightarrow>
   (json \<times> (exn + DivisionRecord list)) list" where
  "division_futures L net events =
     map (\<lambda>(i, event). (event, snd (fetch_one_division L (net i) event))) (enumerate 0 events)"

text \<open>
  The first \<^verbatim>\<open>with ThreadPoolExecutor(max_workers=workers)\<close> block. The constructor raises
  ValueError unless \<open>workers\<close> is positive.
\<close>

definition division_phase ::
  "'a pylib_scheme \<Rightarrow> (nat \<Rightarrow> network) \<Rightarrow> (nat \<Rightarrow> nat) \<Rightarrow> int \<Rightarrow> json list \<Rightarrow>
   exn + DivisionRecord list \<times> ErrorRecord list" where
  "division_phase L net finish workers events =
     (if workers \<le> 0 then Inl ValueError
      else Inr (division_loop L (as_completed finish (division_futures L net events)) ([], [])))"

text \<open>
  The body of the second loop:
  \<^verbatim>\<open>
  try:
      rec = fut.result()
      event_records.append(rec)
  except Exception as e:
      item = futures[fut]
      event_errors.append({...})
  \<close>
\<close>

fun event_loop ::
  "'a pylib_scheme \<Rightarrow> (json \<times> (exn + EventRecord)) list \<Rightarrow>
   EventRecord list \<times> ErrorRecord list \<Rightarrow> EventRecord list \<times> ErrorRecord list" where
  "event_loop L [] acc = acc"
| "event_loop L ((item, Inr r) # futs) (event_records, event_errors) =
     event_loop L futs (event_records @ [r], event_errors)"
| "event_loop L ((item, Inl e) # futs) (event_records, event_errors) =
     event_loop L futs (event_records, event_errors @ [error_record L e item])"

definition event_futures ::
  "'a pylib_scheme \<Rightarrow> (nat \<Rightarrow> network) \<Rightarrow> json list \<Rightarrow> (json \<times> (exn + EventRecord)) list" where
  "event_futures L net events =
     map (\<lambda>(i, event). (event, snd (fetch_one_event L (net i) event))) (enumerate 0 events)"

text \<open>The second \<^verbatim>\<open>with ThreadPoolExecutor(max_workers=workers)\<close> block.\<close>

definition event_phase ::
  "'a pylib_scheme \<Rightarrow> (nat \<Rightarrow> network) \<Rightarrow> (nat \<Rightarrow> nat) \<Rightarrow> int \<Rightarrow> json list \<Rightarrow>
   exn + EventRecord list \<times> ErrorRecord list" where
  "event_phase L net finish workers events =
     (if workers \<le> 0 then Inl ValueError
      else Inr (event_loop L (as_completed finish (event_futures L net events)) ([], [])))"

section \<open>An instance of the library, for evaluating examples\<close>

text \<open>
  \<open>ascii_lib\<close> is a small instance of the library record, enough to run the functions
  above on concrete inputs. It covers less than CPython does:
  \<^item> \<open>ascii_fromisoformat\<close> accepts \<^verbatim>\<open>YYYY-MM-DD\<close> and \<^verbatim>\<open>YYYY-MM-DD\<close>, a \<^verbatim>\<open>T\<close> or a space,
    \<^verbatim>\<open>HH:MM:SS\<close>, with ASCII digits and a date and time that exist. Every CPython that
    has \<^verbatim>\<open>fromisoformat\<close> accepts these; CPython accepts more (fractions of a second,
    offsets, and from 3.11 on most of ISO 8601).
  \<^item> \<open>ascii_strftime\<close> pads the year to four digits.
  \<^item> \<open>ascii_repr\<close>, \<open>ascii_dumps\<close> and \<open>ascii_int_of_str\<close> are right for text made of
    printable ASCII, line feed, carriage return and tab.
  \<^item> \<open>ascii_repr_exc\<close> prints the class of the exception and the argument the model keeps,
    not the message text of CPython.
  The theorems below that hold of the program hold for every library record; \<open>ascii_lib\<close>
  only serves where a closed example is evaluated.
\<close>

definition is_digit :: "char \<Rightarrow> bool" where
  "is_digit c = (c \<in> set ''0123456789'')"

definition digits_val :: "string \<Rightarrow> nat option" where
  "digits_val s =
     (if s \<noteq> [] \<and> list_all is_digit s
      then Some (foldl (\<lambda>a c. 10 * a + (of_char c - 48)) 0 s)
      else None)"

definition is_leap :: "nat \<Rightarrow> bool" where
  "is_leap y = (if y mod 400 = 0 then True else if y mod 100 = 0 then False else y mod 4 = 0)"

definition days_in_month :: "nat \<Rightarrow> nat \<Rightarrow> nat" where
  "days_in_month y m =
     (if m = 2 then (if is_leap y then 29 else 28)
      else if m \<in> set [4, 6, 9, 11] then 30 else 31)"

definition parse_ymd :: "string \<Rightarrow> (nat \<times> nat \<times> nat) option" where
  "parse_ymd s =
     (if length s = 10 \<and> s ! 4 = CHR ''-'' \<and> s ! 7 = CHR ''-''
      then (case (digits_val (take 4 s), digits_val (take 2 (drop 5 s)), digits_val (drop 8 s)) of
              (Some y, Some m, Some d) \<Rightarrow>
                if 1 \<le> y \<and> 1 \<le> m \<and> m \<le> 12 \<and> 1 \<le> d \<and> d \<le> days_in_month y m
                then Some (y, m, d) else None
            | _ \<Rightarrow> None)
      else None)"

definition parse_hms :: "string \<Rightarrow> (nat \<times> nat \<times> nat) option" where
  "parse_hms s =
     (if length s = 8 \<and> s ! 2 = CHR '':'' \<and> s ! 5 = CHR '':''
      then (case (digits_val (take 2 s), digits_val (take 2 (drop 3 s)), digits_val (drop 6 s)) of
              (Some h, Some mi, Some sec) \<Rightarrow>
                if h < 24 \<and> mi < 60 \<and> sec < 60 then Some (h, mi, sec) else None
            | _ \<Rightarrow> None)
      else None)"

definition ascii_fromisoformat :: "string \<Rightarrow> datetime option" where
  "ascii_fromisoformat s =
     (case parse_ymd (take 10 s) of
        None \<Rightarrow> None
      | Some (y, m, d) \<Rightarrow>
          if length s = 10
          then Some \<lparr>year = y, month = m, day = d, hour = 0, minute = 0, second = 0\<rparr>
          else if length s = 19 \<and> s ! 10 \<in> set ''T ''
          then (case parse_hms (drop 11 s) of
                  None \<Rightarrow> None
                | Some (h, mi, sec) \<Rightarrow>
                    Some \<lparr>year = y, month = m, day = d, hour = h, minute = mi, second = sec\<rparr>)
          else None)"

definition zfill :: "nat \<Rightarrow> string \<Rightarrow> string" where
  "zfill w s = replicate (w - length s) CHR ''0'' @ s"

definition ascii_strftime :: "datetime \<Rightarrow> string" where
  "ascii_strftime dt =
     zfill 2 (show_nat (month dt)) @ ''/'' @ zfill 2 (show_nat (day dt)) @ ''/'' @
     zfill 4 (show_nat (year dt))"

fun join :: "string \<Rightarrow> string list \<Rightarrow> string" where
  "join sep [] = []"
| "join sep [x] = x"
| "join sep (x # y # ys) = x @ sep @ join sep (y # ys)"

definition repr_str :: "string \<Rightarrow> string" where
  "repr_str s =
     (let q = (if CHR 0x27 \<in> set s \<and> CHR 0x22 \<notin> set s then CHR 0x22 else CHR 0x27)
      in q # concat (map (\<lambda>c.
             if c = CHR 0x5C then [CHR 0x5C, CHR 0x5C]
             else if c = q then [CHR 0x5C, q]
             else if c = CHR 0x0A then [CHR 0x5C, CHR ''n'']
             else if c = CHR 0x0D then [CHR 0x5C, CHR ''r'']
             else if c = CHR 0x09 then [CHR 0x5C, CHR ''t'']
             else [c]) s) @ [q])"

fun ascii_repr :: "json \<Rightarrow> string" where
  "ascii_repr JNull = ''None''"
| "ascii_repr (JBool b) = (if b then ''True'' else ''False'')"
| "ascii_repr (JInt n) = show_int n"
| "ascii_repr (JFloat f) = fl_repr f"
| "ascii_repr (JStr s) = repr_str s"
| "ascii_repr (JArr xs) = ''['' @ join '', '' (map ascii_repr xs) @ '']''"
| "ascii_repr (JObj kvs) =
     ''{'' @ join '', '' (map (\<lambda>kv. repr_str (fst kv) @ '': '' @ ascii_repr (snd kv)) kvs) @
     ''}''"

definition dumps_str :: "string \<Rightarrow> string" where
  "dumps_str s =
     CHR 0x22 # concat (map (\<lambda>c.
        if c = CHR 0x5C then [CHR 0x5C, CHR 0x5C]
        else if c = CHR 0x22 then [CHR 0x5C, CHR 0x22]
        else if c = CHR 0x0A then [CHR 0x5C, CHR ''n'']
        else if c = CHR 0x0D then [CHR 0x5C, CHR ''r'']
        else if c = CHR 0x09 then [CHR 0x5C, CHR ''t'']
        else [c]) s) @ [CHR 0x22]"

fun ascii_dumps :: "json \<Rightarrow> string" where
  "ascii_dumps JNull = ''null''"
| "ascii_dumps (JBool b) = (if b then ''true'' else ''false'')"
| "ascii_dumps (JInt n) = show_int n"
| "ascii_dumps (JFloat f) = fl_repr f"
| "ascii_dumps (JStr s) = dumps_str s"
| "ascii_dumps (JArr xs) = ''['' @ join '', '' (map ascii_dumps xs) @ '']''"
| "ascii_dumps (JObj kvs) =
     ''{'' @ join '', '' (map (\<lambda>kv. dumps_str (fst kv) @ '': '' @ ascii_dumps (snd kv)) kvs) @
     ''}''"

definition ascii_int_of_str :: "string \<Rightarrow> int option" where
  "ascii_int_of_str s =
     (let t = py_strip s;
          signed = (t \<noteq> [] \<and> hd t \<in> set ''+-'')
      in case digits_val (if signed then tl t else t) of
           None \<Rightarrow> None
         | Some n \<Rightarrow> Some (if signed \<and> hd t = CHR ''-'' then - int n else int n))"

fun ascii_repr_exc :: "exn \<Rightarrow> string" where
  "ascii_repr_exc AttributeError = ''AttributeError()''"
| "ascii_repr_exc (KeyError k) = ''KeyError('' @ repr_str k @ '')''"
| "ascii_repr_exc TypeError = ''TypeError()''"
| "ascii_repr_exc ValueError = ''ValueError()''"
| "ascii_repr_exc OverflowError = ''OverflowError()''"
| "ascii_repr_exc ConnectionError = ''ConnectionError()''"
| "ascii_repr_exc Timeout = ''Timeout()''"
| "ascii_repr_exc (HTTPError status) = ''HTTPError('' @ show_nat status @ '')''"
| "ascii_repr_exc JSONDecodeError = ''JSONDecodeError()''"

definition ascii_lib :: pylib where
  "ascii_lib =
     \<lparr>fromisoformat = ascii_fromisoformat, strftime_mdY = ascii_strftime,
      repr_container = ascii_repr, int_of_str = ascii_int_of_str,
      json_dumps = ascii_dumps, repr_exc = ascii_repr_exc\<rparr>"

section \<open>Shapes of event payloads\<close>

text \<open>
  Which event payloads \<^verbatim>\<open>parse_event_api\<close> gets through. The nested lookups call \<^verbatim>\<open>.get\<close>
  on \<^verbatim>\<open>data.get(k) or {}\<close>, so the value under \<^verbatim>\<open>affiliation\<close>, \<^verbatim>\<open>eventType\<close>, \<^verbatim>\<open>address\<close>
  and the address's \<^verbatim>\<open>state\<close> has to be a dict or falsy; \<^verbatim>\<open>_fmt_date\<close> calls \<^verbatim>\<open>.replace\<close>, so
  the two dates have to be a str or falsy. \<open>member_of v k\<close> is what \<^verbatim>\<open>(v or {}).get(k)\<close>
  yields for such a \<open>v\<close>.
\<close>

definition dict_or_falsy :: "json \<Rightarrow> bool" where
  "dict_or_falsy v = (case v of JObj _ \<Rightarrow> True | _ \<Rightarrow> \<not> truthy v)"

definition str_or_falsy :: "json \<Rightarrow> bool" where
  "str_or_falsy v = (case v of JStr _ \<Rightarrow> True | _ \<Rightarrow> \<not> truthy v)"

definition member_of :: "json \<Rightarrow> string \<Rightarrow> json" where
  "member_of v k = (case v of JObj kvs \<Rightarrow> dict_get kvs k | _ \<Rightarrow> JNull)"

definition well_shaped :: "(string \<times> json) list \<Rightarrow> bool" where
  "well_shaped data =
     (dict_or_falsy (dict_get data ''affiliation'') \<and>
      dict_or_falsy (dict_get data ''eventType'') \<and>
      dict_or_falsy (dict_get data ''address'') \<and>
      dict_or_falsy (member_of (dict_get data ''address'') ''state'') \<and>
      str_or_falsy (dict_get data ''startDate'') \<and>
      str_or_falsy (dict_get data ''endDate''))"

section \<open>Properties\<close>

subsection \<open>Sequencing\<close>

lemma and_then_Inr [simp]: "and_then (Inr v) f = f v"
  by (simp add: and_then_def)

lemma and_then_Inl [simp]: "and_then (Inl e) f = Inl e"
  by (simp add: and_then_def)

subsection \<open>Divisions of an item without an event identifier\<close>

text \<open>
  C3. For a catalog item whose \<^verbatim>\<open>eventId\<close> is absent or null, \<^verbatim>\<open>_fetch_one_division\<close> returns
  the empty list at once: it requests no URL and raises nothing, whatever the network
  would have answered.
\<close>

theorem fetch_one_division_without_event_id:
  assumes "dict_get event ''eventId'' = JNull"
  shows "fetch_one_division L net (JObj event) = ([], Inr [])"
  using assms by (simp add: fetch_one_division_def)

theorem fetch_one_division_without_event_id_witness:
  "dict_get [(''eventSchedulerId'', JInt 9), (''name'', JStr ''Open'')] ''eventId'' = JNull \<and>
   dict_get [(''eventId'', JNull)] ''eventId'' = JNull \<and>
   fetch_one_division ascii_lib (\<lambda>url. Inl Timeout)
     (JObj [(''eventSchedulerId'', JInt 9), (''name'', JStr ''Open'')]) = ([], Inr []) \<and>
   fetch_one_division ascii_lib (\<lambda>url. Inl Timeout) (JObj [(''eventId'', JNull)]) = ([], Inr [])"
proof -
  have a: "dict_get [(''eventSchedulerId'', JInt 9), (''name'', JStr ''Open'')] ''eventId'' = JNull"
    by (simp add: dict_get_def)
  have b: "dict_get [(''eventId'', JNull)] ''eventId'' = JNull"
    by (simp add: dict_get_def)
  show ?thesis
    using a b fetch_one_division_without_event_id [OF a, of ascii_lib "\<lambda>url. Inl Timeout"]
      fetch_one_division_without_event_id [OF b, of ascii_lib "\<lambda>url. Inl Timeout"]
    by simp
qed

subsection \<open>The entry fee of a division\<close>

text \<open>
  C5, as the code has it. A division payload that is a dict always normalizes, and its
  \<open>entry_fee\<close> is \<^verbatim>\<open>"0"\<close> when \<^verbatim>\<open>entryFee\<close> is absent or falsy, and \<^verbatim>\<open>str\<close> of the value when
  the value is truthy.
\<close>

theorem entry_fee_rule:
  "\<exists>r. parse_division_api L (JObj data) = Inr r \<and>
     entry_fee r =
       (case map_of data ''entryFee'' of
          None \<Rightarrow> ''0''
        | Some v \<Rightarrow> if truthy v then py_str L v else ''0'')"
  by (simp add: dict_get_def py_or_def split: option.splits)

text \<open>
  The claim as worded (the stringified value whenever the field is present) fails for a
  present empty string: \<^verbatim>\<open>str("")\<close> is the empty string, the record holds \<^verbatim>\<open>"0"\<close>.
\<close>

theorem entry_fee_counterexample:
  "map_of [(''entryFee'', JStr '''')] ''entryFee'' = Some (JStr '''') \<and>
   py_str ascii_lib (JStr '''') = '''' \<and>
   parse_division_api ascii_lib (JObj [(''entryFee'', JStr '''')]) =
     Inr \<lparr>description = '''', entry_fee = ''0'', event_division_assignment_id = '''',
          division_event_id = '''', maximum_teams = ''''\<rparr>"
  by (simp add: dict_get_def py_or_def)

text \<open>
  C10. When \<^verbatim>\<open>entryFee\<close> is present but falsy (the number 0, the empty string, false, null,
  and likewise 0.0 and empty containers), \<open>entry_fee\<close> is \<^verbatim>\<open>"0"\<close>, the same as for a payload
  without the field.
\<close>

theorem entry_fee_falsy:
  assumes "map_of data ''entryFee'' = Some v" and "\<not> truthy v"
    and "map_of data' ''entryFee'' = None"
  shows "\<exists>r r'. parse_division_api L (JObj data) = Inr r \<and>
           parse_division_api L (JObj data') = Inr r' \<and>
           entry_fee r = ''0'' \<and> entry_fee r' = entry_fee r"
  using assms by (simp add: dict_get_def py_or_def)

theorem entry_fee_falsy_witness:
  "map_of [(''entryFee'', JInt 0)] ''entryFee'' = Some (JInt 0) \<and> \<not> truthy (JInt 0) \<and>
   map_of [(''entryFee'', JStr '''')] ''entryFee'' = Some (JStr '''') \<and> \<not> truthy (JStr '''') \<and>
   map_of [(''entryFee'', JBool False)] ''entryFee'' = Some (JBool False) \<and>
   \<not> truthy (JBool False) \<and>
   map_of [(''entryFee'', JNull)] ''entryFee'' = Some JNull \<and> \<not> truthy JNull \<and>
   map_of [(''description'', JStr ''18 Open'')] ''entryFee'' = None \<and>
   (\<exists>r r'. parse_division_api ascii_lib (JObj [(''entryFee'', JInt 0)]) = Inr r \<and>
      parse_division_api ascii_lib (JObj [(''description'', JStr ''18 Open'')]) = Inr r' \<and>
      entry_fee r = ''0'' \<and> entry_fee r' = entry_fee r) \<and>
   (\<exists>r r'. parse_division_api ascii_lib (JObj [(''entryFee'', JStr '''')]) = Inr r \<and>
      parse_division_api ascii_lib (JObj [(''description'', JStr ''18 Open'')]) = Inr r' \<and>
      entry_fee r = ''0'' \<and> entry_fee r' = entry_fee r) \<and>
   (\<exists>r r'. parse_division_api ascii_lib (JObj [(''entryFee'', JBool False)]) = Inr r \<and>
      parse_division_api ascii_lib (JObj [(''description'', JStr ''18 Open'')]) = Inr r' \<and>
      entry_fee r = ''0'' \<and> entry_fee r' = entry_fee r) \<and>
   (\<exists>r r'. parse_division_api ascii_lib (JObj [(''entryFee'', JNull)]) = Inr r \<and>
      parse_division_api ascii_lib (JObj [(''description'', JStr ''18 Open'')]) = Inr r' \<and>
      entry_fee r = ''0'' \<and> entry_fee r' = entry_fee r)"
proof -
  have absent: "map_of [(''description'', JStr ''18 Open'')] ''entryFee'' = None"
    by simp
  have p0: "map_of [(''entryFee'', JInt 0)] ''entryFee'' = Some (JInt 0)"
    and p1: "map_of [(''entryFee'', JStr '''')] ''entryFee'' = Some (JStr '''')"
    and p2: "map_of [(''entryFee'', JBool False)] ''entryFee'' = Some (JBool False)"
    and p3: "map_of [(''entryFee'', JNull)] ''entryFee'' = Some JNull"
    by simp_all
  have f0: "\<not> truthy (JInt 0)" and f1: "\<not> truthy (JStr '''')"
    and f2: "\<not> truthy (JBool False)" and f3: "\<not> truthy JNull"
    by simp_all
  note w0 = entry_fee_falsy [OF p0 f0 absent, of ascii_lib]
    and w1 = entry_fee_falsy [OF p1 f1 absent, of ascii_lib]
    and w2 = entry_fee_falsy [OF p2 f2 absent, of ascii_lib]
    and w3 = entry_fee_falsy [OF p3 f3 absent, of ascii_lib]
  from absent p0 p1 p2 p3 f0 f1 f2 f3 w0 w1 w2 w3 show ?thesis
    by (intro conjI)
qed

subsection \<open>What the event normalizer returns\<close>

lemma py_get_py_or:
  "py_get (py_or v (JObj [])) k =
     (if dict_or_falsy v then Inr (member_of v k) else Inl AttributeError)"
  by (cases v) (auto simp: dict_or_falsy_def py_or_def member_of_def dict_get_def)

lemma fmt_date_falsy: "\<not> truthy v \<Longrightarrow> fmt_date L v = Inr ''''"
  by (simp add: fmt_date_def)

lemma fmt_date_str: "\<exists>out. fmt_date L (JStr s) = Inr out"
  by (simp add: fmt_date_def split: option.splits)

lemma fmt_date_shaped: "str_or_falsy v \<Longrightarrow> \<exists>out. fmt_date L v = Inr out"
  by (cases v) (auto simp: str_or_falsy_def fmt_date_def split: option.splits)

lemma fmt_date_not_shaped: "\<not> str_or_falsy v \<Longrightarrow> fmt_date L v = Inl AttributeError"
  by (cases v) (auto simp: str_or_falsy_def fmt_date_def)

lemma parse_event_api_raises:
  assumes "\<not> well_shaped data"
  shows "parse_event_api L (JObj data) = Inl AttributeError"
proof -
  show ?thesis
  proof (cases "str_or_falsy (dict_get data ''startDate'')")
    case True
    then obtain sd where sd: "fmt_date L (dict_get data ''startDate'') = Inr sd"
      using fmt_date_shaped by blast
    show ?thesis
    proof (cases "str_or_falsy (dict_get data ''endDate'')")
      case True
      with assms \<open>str_or_falsy (dict_get data ''startDate'')\<close> show ?thesis
        by (simp add: well_shaped_def Let_def py_get_py_or)
    next
      case False
      then show ?thesis
        by (simp add: Let_def py_get_py_or sd fmt_date_not_shaped)
    qed
  next
    case False
    then show ?thesis
      by (simp add: Let_def py_get_py_or fmt_date_not_shaped)
  qed
qed

lemma parse_event_api_total:
  assumes "well_shaped data"
  shows "\<exists>r. parse_event_api L (JObj data) = Inr r"
proof -
  from assms obtain sd ed where
    "fmt_date L (dict_get data ''startDate'') = Inr sd"
    "fmt_date L (dict_get data ''endDate'') = Inr ed"
    using fmt_date_shaped unfolding well_shaped_def by blast
  with assms show ?thesis
    by (simp add: well_shaped_def Let_def py_get_py_or)
qed

lemma parse_event_api_shape:
  assumes "parse_event_api L (JObj data) = Inr r"
  shows "well_shaped data"
  using assms parse_event_api_raises [of data L] by auto

lemma parse_event_api_fields:
  assumes "parse_event_api L (JObj data) = Inr r"
  shows "event_id r = py_str L (py_or (dict_get data ''eventId'') (JStr ''''))"
    and "event_url r =
           (if event_id r \<noteq> ''''
            then ''https://www.advancedeventsystems.com/events/'' @ event_id r else '''')"
    and "name r = py_or (dict_get data ''name'') (JStr '''')"
    and "tournament_type r =
           (let aff = py_or (member_of (dict_get data ''affiliation'') ''description'') (JStr '''');
                et = py_or (member_of (dict_get data ''eventType'') ''description'') (JStr '''')
            in if truthy aff \<or> truthy et
               then py_strip (py_str L aff @ '' '' @ py_str L et) else '''')"
    and "host r =
           py_or (dict_get data ''hostName'')
             (py_or (dict_get data ''bossOrganizationName'') (JStr ''''))"
    and "location r = py_or (dict_get data ''locationName'') (JStr '''')"
    and "address r =
           (let a = dict_get data ''address''
            in py_rstrip '', ''
                 (py_strip
                   (py_str L (py_or (member_of a ''line1'') (JStr '''')) @ [CHR 0x0A] @
                    py_str L (py_or (member_of a ''city'') (JStr '''')) @ '', '' @
                    py_str L (py_or (member_of (member_of a ''state'') ''abbreviation'')
                                (JStr '''')) @ '' '' @
                    py_str L (py_or (member_of a ''zip'') (JStr '''')))))"
    and "website r = py_or (dict_get data ''website'') (JStr '''')"
    and "email r = py_or (dict_get data ''email'') (JStr '''')"
    and "fmt_date L (dict_get data ''startDate'') = Inr (start_date r)"
    and "fmt_date L (dict_get data ''endDate'') = Inr (end_date r)"
proof -
  from assms have ws: "well_shaped data"
    by (rule parse_event_api_shape)
  then obtain sd ed where
    d: "fmt_date L (dict_get data ''startDate'') = Inr sd"
       "fmt_date L (dict_get data ''endDate'') = Inr ed"
    using fmt_date_shaped unfolding well_shaped_def by blast
  from ws d assms have r:
    "r = \<lparr>event_id = py_str L (py_or (dict_get data ''eventId'') (JStr '''')),
          event_url =
            (if py_str L (py_or (dict_get data ''eventId'') (JStr '''')) \<noteq> ''''
             then ''https://www.advancedeventsystems.com/events/'' @
                  py_str L (py_or (dict_get data ''eventId'') (JStr ''''))
             else ''''),
          name = py_or (dict_get data ''name'') (JStr ''''),
          tournament_type =
            (let aff = py_or (member_of (dict_get data ''affiliation'') ''description'') (JStr '''');
                 et = py_or (member_of (dict_get data ''eventType'') ''description'') (JStr '''')
             in if truthy aff \<or> truthy et
                then py_strip (py_str L aff @ '' '' @ py_str L et) else ''''),
          host = py_or (dict_get data ''hostName'')
                   (py_or (dict_get data ''bossOrganizationName'') (JStr '''')),
          location = py_or (dict_get data ''locationName'') (JStr ''''),
          address =
            (let a = dict_get data ''address''
             in py_rstrip '', ''
                  (py_strip
                    (py_str L (py_or (member_of a ''line1'') (JStr '''')) @ [CHR 0x0A] @
                     py_str L (py_or (member_of a ''city'') (JStr '''')) @ '', '' @
                     py_str L (py_or (member_of (member_of a ''state'') ''abbreviation'')
                                 (JStr '''')) @ '' '' @
                     py_str L (py_or (member_of a ''zip'') (JStr ''''))))),
          website = py_or (dict_get data ''website'') (JStr ''''),
          email = py_or (dict_get data ''email'') (JStr ''''),
          start_date = sd, end_date = ed\<rparr>"
    by (simp add: well_shaped_def Let_def py_get_py_or)
  show "event_id r = py_str L (py_or (dict_get data ''eventId'') (JStr ''''))"
    by (simp add: r)
  show "event_url r =
           (if event_id r \<noteq> ''''
            then ''https://www.advancedeventsystems.com/events/'' @ event_id r else '''')"
    by (simp add: r)
  show "name r = py_or (dict_get data ''name'') (JStr '''')"
    by (simp add: r)
  show "tournament_type r =
           (let aff = py_or (member_of (dict_get data ''affiliation'') ''description'') (JStr '''');
                et = py_or (member_of (dict_get data ''eventType'') ''description'') (JStr '''')
            in if truthy aff \<or> truthy et
               then py_strip (py_str L aff @ '' '' @ py_str L et) else '''')"
    by (simp add: r)
  show "host r =
           py_or (dict_get data ''hostName'')
             (py_or (dict_get data ''bossOrganizationName'') (JStr ''''))"
    by (simp add: r)
  show "location r = py_or (dict_get data ''locationName'') (JStr '''')"
    by (simp add: r)
  show "address r =
           (let a = dict_get data ''address''
            in py_rstrip '', ''
                 (py_strip
                   (py_str L (py_or (member_of a ''line1'') (JStr '''')) @ [CHR 0x0A] @
                    py_str L (py_or (member_of a ''city'') (JStr '''')) @ '', '' @
                    py_str L (py_or (member_of (member_of a ''state'') ''abbreviation'')
                                (JStr '''')) @ '' '' @
                    py_str L (py_or (member_of a ''zip'') (JStr '''')))))"
    by (simp add: r)
  show "website r = py_or (dict_get data ''website'') (JStr '''')"
    by (simp add: r)
  show "email r = py_or (dict_get data ''email'') (JStr '''')"
    by (simp add: r)
  show "fmt_date L (dict_get data ''startDate'') = Inr (start_date r)"
    by (simp add: r d)
  show "fmt_date L (dict_get data ''endDate'') = Inr (end_date r)"
    by (simp add: r d)
qed

lemma strip_all_missing: "py_rstrip '', '' (py_strip [CHR 0x0A, CHR '','', CHR '' '', CHR '' '']) = []"
  by code_simp

lemma py_rstrip_last: "py_rstrip cs s = [] \<or> last (py_rstrip cs s) \<notin> set cs"
proof (cases "dropWhile (\<lambda>c. c \<in> set cs) (rev s)")
  case Nil
  then show ?thesis by (simp add: py_rstrip_def)
next
  case (Cons x xs)
  then have "\<not> (x \<in> set cs)"
    using hd_dropWhile [of "\<lambda>c. c \<in> set cs" "rev s"] by simp
  with Cons show ?thesis by (simp add: py_rstrip_def)
qed

lemma py_rstrip_no_suffix: "\<not> suffix '', '' (py_rstrip '', '' s)"
proof
  assume "suffix '', '' (py_rstrip '', '' s)"
  then obtain p where p: "py_rstrip '', '' s = p @ '', ''"
    by (auto simp: suffix_def)
  then have "last (py_rstrip '', '' s) = CHR '' ''" and "py_rstrip '', '' s \<noteq> []"
    by simp_all
  with py_rstrip_last [of "'', ''" s] show False by simp
qed

lemma parse_example_with_id:
  "parse_event_api ascii_lib (JObj [(''eventId'', JInt 77), (''name'', JStr ''Spring Open'')]) =
     Inr \<lparr>event_id = ''77'', event_url = ''https://www.advancedeventsystems.com/events/77'',
          name = JStr ''Spring Open'', tournament_type = '''', host = JStr '''',
          location = JStr '''', address = '''', website = JStr '''', email = JStr '''',
          start_date = '''', end_date = ''''\<rparr>"
  by code_simp

lemma parse_example_empty:
  "parse_event_api ascii_lib (JObj []) =
     Inr \<lparr>event_id = '''', event_url = '''', name = JStr '''', tournament_type = '''',
          host = JStr '''', location = JStr '''', address = '''', website = JStr '''',
          email = JStr '''', start_date = '''', end_date = ''''\<rparr>"
  by code_simp

subsection \<open>The URL of an event\<close>

text \<open>
  C8. In every record \<^verbatim>\<open>parse_event_api\<close> produces, \<open>event_url\<close> is the empty string exactly
  when \<open>event_id\<close> is.
\<close>

theorem event_url_empty_iff_event_id_empty:
  assumes "parse_event_api L data = Inr r"
  shows "event_url r = '''' \<longleftrightarrow> event_id r = ''''"
proof (cases data)
  case (JObj kvs)
  with assms have "parse_event_api L (JObj kvs) = Inr r" by simp
  from parse_event_api_fields(2) [OF this] show ?thesis by simp
qed (use assms in simp_all)

theorem event_url_empty_iff_event_id_empty_witness:
  "(\<exists>r. parse_event_api ascii_lib
          (JObj [(''eventId'', JInt 77), (''name'', JStr ''Spring Open'')]) = Inr r \<and>
        (event_url r = '''' \<longleftrightarrow> event_id r = '''') \<and>
        event_id r = ''77'' \<and>
        event_url r = ''https://www.advancedeventsystems.com/events/77'') \<and>
   (\<exists>r. parse_event_api ascii_lib (JObj []) = Inr r \<and>
        (event_url r = '''' \<longleftrightarrow> event_id r = '''') \<and>
        event_id r = '''' \<and> event_url r = '''')"
  using parse_example_with_id parse_example_empty
    event_url_empty_iff_event_id_empty [OF parse_example_with_id]
    event_url_empty_iff_event_id_empty [OF parse_example_empty]
  by simp

subsection \<open>Dates\<close>

lemma fmt_date_example:
  "fmt_date ascii_lib (JStr ''2024-03-01T00:00:00Z'') = Inr ''03/01/2024''"
  by code_simp

lemma ascii_fromisoformat_example:
  "fromisoformat ascii_lib ''2024-03-01T00:00:00'' =
     Some \<lparr>year = 2024, month = 3, day = 1, hour = 0, minute = 0, second = 0\<rparr>"
  by code_simp

lemma ascii_strftime_example:
  "strftime_mdY ascii_lib \<lparr>year = 2024, month = 3, day = 1, hour = 0, minute = 0, second = 0\<rparr> =
     ''03/01/2024''"
  by code_simp

lemma not_a_date: "fromisoformat ascii_lib (replace_Z ''March 1st, 2024'') = None"
  by code_simp

text \<open>
  C4, as the code has it. \<^verbatim>\<open>_fmt_date\<close> returns the empty string for \<^verbatim>\<open>None\<close>, for the empty
  string and for every other falsy value; for a str it never raises, and it returns the
  empty string whenever the library rejects what is left of the str once every \<^verbatim>\<open>Z\<close> is
  deleted. Where the library parses \<^verbatim>\<open>2024-03-01T00:00:00\<close>, the input
  \<^verbatim>\<open>2024-03-01T00:00:00Z\<close> is printed as that date; with the reference library the result
  is \<^verbatim>\<open>03/01/2024\<close>.
\<close>

theorem fmt_date_rule:
  "fmt_date L JNull = Inr '''' \<and>
   fmt_date L (JStr '''') = Inr '''' \<and>
   (\<not> truthy v \<longrightarrow> fmt_date L v = Inr '''') \<and>
   (fromisoformat L (replace_Z s) = None \<longrightarrow> fmt_date L (JStr s) = Inr '''') \<and>
   (\<exists>out. fmt_date L (JStr s) = Inr out) \<and>
   (fromisoformat L ''2024-03-01T00:00:00'' = Some dt \<longrightarrow>
      fmt_date L (JStr ''2024-03-01T00:00:00Z'') = Inr (strftime_mdY L dt)) \<and>
   fmt_date ascii_lib (JStr ''2024-03-01T00:00:00Z'') = Inr ''03/01/2024''"
proof (intro conjI impI)
  show "fmt_date L JNull = Inr ''''" and "fmt_date L (JStr '''') = Inr ''''"
    by (simp_all add: fmt_date_def)
  show "fmt_date L v = Inr ''''" if "\<not> truthy v"
    using that by (rule fmt_date_falsy)
  show "fmt_date L (JStr s) = Inr ''''" if "fromisoformat L (replace_Z s) = None"
    using that by (simp add: fmt_date_def)
  show "\<exists>out. fmt_date L (JStr s) = Inr out"
    by (rule fmt_date_str)
  show "fmt_date L (JStr ''2024-03-01T00:00:00Z'') = Inr (strftime_mdY L dt)"
    if "fromisoformat L ''2024-03-01T00:00:00'' = Some dt"
    using that by (simp add: fmt_date_def replace_Z_def)
  show "fmt_date ascii_lib (JStr ''2024-03-01T00:00:00Z'') = Inr ''03/01/2024''"
    by (rule fmt_date_example)
qed

theorem fmt_date_rule_witness:
  "\<not> truthy (JInt 0) \<and> fmt_date ascii_lib (JInt 0) = Inr '''' \<and>
   fromisoformat ascii_lib (replace_Z ''March 1st, 2024'') = None \<and>
   fmt_date ascii_lib (JStr ''March 1st, 2024'') = Inr '''' \<and>
   fromisoformat ascii_lib ''2024-03-01T00:00:00'' =
     Some \<lparr>year = 2024, month = 3, day = 1, hour = 0, minute = 0, second = 0\<rparr> \<and>
   fmt_date ascii_lib (JStr ''2024-03-01T00:00:00Z'') =
     Inr (strftime_mdY ascii_lib
           \<lparr>year = 2024, month = 3, day = 1, hour = 0, minute = 0, second = 0\<rparr>) \<and>
   strftime_mdY ascii_lib \<lparr>year = 2024, month = 3, day = 1, hour = 0, minute = 0, second = 0\<rparr> =
     ''03/01/2024''"
  using fmt_date_rule [of ascii_lib "JInt 0" "''March 1st, 2024''"
      "\<lparr>year = 2024, month = 3, day = 1, hour = 0, minute = 0, second = 0\<rparr>"]
    not_a_date ascii_fromisoformat_example ascii_strftime_example
  by simp

text \<open>
  The claim as worded fails twice. \<^verbatim>\<open>Z2024-03-01\<close> is no ISO 8601 string and the library
  rejects it, yet \<^verbatim>\<open>replace("Z", "")\<close> turns it into one and the formatter prints a date. And
  a truthy input that is not a str, which \<^verbatim>\<open>data.get("startDate")\<close> can be, raises
  AttributeError, which \<^verbatim>\<open>except ValueError\<close> lets through.
\<close>

theorem fmt_date_counterexample:
  "fromisoformat ascii_lib ''Z2024-03-01'' = None \<and>
   fmt_date ascii_lib (JStr ''Z2024-03-01'') = Inr ''03/01/2024'' \<and>
   fmt_date ascii_lib (JInt 20240301) = Inl AttributeError"
  by code_simp

subsection \<open>Totality of the event normalizer\<close>

lemma well_shaped_example:
  "well_shaped [(''eventId'', JNull), (''address'', JNull), (''startDate'', JNull)]"
  by (simp add: well_shaped_def dict_or_falsy_def str_or_falsy_def member_of_def dict_get_def)

lemma not_well_shaped_example: "\<not> well_shaped [(''address'', JStr ''123 Main St'')]"
  by (simp add: well_shaped_def dict_or_falsy_def dict_get_def)

text \<open>
  C2, as the code has it. \<^verbatim>\<open>parse_event_api\<close> returns a record for every payload that is a
  dict in which \<^verbatim>\<open>affiliation\<close>, \<^verbatim>\<open>eventType\<close>, \<^verbatim>\<open>address\<close> and the address's \<^verbatim>\<open>state\<close> are each
  absent, falsy or a dict, and \<^verbatim>\<open>startDate\<close> and \<^verbatim>\<open>endDate\<close> are each absent, falsy or a str.
  In that record every field whose source data is absent or null is the empty string.
  On every other dict it raises AttributeError, and so it does on a payload that is not
  a dict.
\<close>

theorem parse_event_api_total_on_well_shaped:
  "(well_shaped data \<longrightarrow>
      (\<exists>r. parse_event_api L (JObj data) = Inr r \<and>
         (dict_get data ''eventId'' = JNull \<longrightarrow> event_id r = '''' \<and> event_url r = '''') \<and>
         (dict_get data ''name'' = JNull \<longrightarrow> name r = JStr '''') \<and>
         (member_of (dict_get data ''affiliation'') ''description'' = JNull \<and>
          member_of (dict_get data ''eventType'') ''description'' = JNull \<longrightarrow>
            tournament_type r = '''') \<and>
         (dict_get data ''hostName'' = JNull \<and> dict_get data ''bossOrganizationName'' = JNull \<longrightarrow>
            host r = JStr '''') \<and>
         (dict_get data ''locationName'' = JNull \<longrightarrow> location r = JStr '''') \<and>
         (dict_get data ''address'' = JNull \<longrightarrow> address r = '''') \<and>
         (dict_get data ''website'' = JNull \<longrightarrow> website r = JStr '''') \<and>
         (dict_get data ''email'' = JNull \<longrightarrow> email r = JStr '''') \<and>
         (dict_get data ''startDate'' = JNull \<longrightarrow> start_date r = '''') \<and>
         (dict_get data ''endDate'' = JNull \<longrightarrow> end_date r = ''''))) \<and>
   (\<not> well_shaped data \<longrightarrow> parse_event_api L (JObj data) = Inl AttributeError) \<and>
   ((\<forall>kvs. v \<noteq> JObj kvs) \<longrightarrow> parse_event_api L v = Inl AttributeError)"
proof (intro conjI impI)
  assume "well_shaped data"
  then obtain r where r: "parse_event_api L (JObj data) = Inr r"
    using parse_event_api_total by blast
  note f = parse_event_api_fields [OF r]
  have "dict_get data ''eventId'' = JNull \<longrightarrow> event_id r = '''' \<and> event_url r = ''''"
    using f(1,2) by (simp add: py_or_def)
  moreover have "dict_get data ''name'' = JNull \<longrightarrow> name r = JStr ''''"
    using f(3) by (simp add: py_or_def)
  moreover have "member_of (dict_get data ''affiliation'') ''description'' = JNull \<and>
      member_of (dict_get data ''eventType'') ''description'' = JNull \<longrightarrow>
      tournament_type r = ''''"
    using f(4) by (simp add: py_or_def)
  moreover have "dict_get data ''hostName'' = JNull \<and>
      dict_get data ''bossOrganizationName'' = JNull \<longrightarrow> host r = JStr ''''"
    using f(5) by (simp add: py_or_def)
  moreover have "dict_get data ''locationName'' = JNull \<longrightarrow> location r = JStr ''''"
    using f(6) by (simp add: py_or_def)
  moreover have "dict_get data ''address'' = JNull \<longrightarrow> address r = ''''"
    using f(7) by (simp add: py_or_def member_of_def strip_all_missing)
  moreover have "dict_get data ''website'' = JNull \<longrightarrow> website r = JStr ''''"
    using f(8) by (simp add: py_or_def)
  moreover have "dict_get data ''email'' = JNull \<longrightarrow> email r = JStr ''''"
    using f(9) by (simp add: py_or_def)
  moreover have "dict_get data ''startDate'' = JNull \<longrightarrow> start_date r = ''''"
    using f(10) by (auto simp: fmt_date_def)
  moreover have "dict_get data ''endDate'' = JNull \<longrightarrow> end_date r = ''''"
    using f(11) by (auto simp: fmt_date_def)
  ultimately show "\<exists>r. parse_event_api L (JObj data) = Inr r \<and>
         (dict_get data ''eventId'' = JNull \<longrightarrow> event_id r = '''' \<and> event_url r = '''') \<and>
         (dict_get data ''name'' = JNull \<longrightarrow> name r = JStr '''') \<and>
         (member_of (dict_get data ''affiliation'') ''description'' = JNull \<and>
          member_of (dict_get data ''eventType'') ''description'' = JNull \<longrightarrow>
            tournament_type r = '''') \<and>
         (dict_get data ''hostName'' = JNull \<and> dict_get data ''bossOrganizationName'' = JNull \<longrightarrow>
            host r = JStr '''') \<and>
         (dict_get data ''locationName'' = JNull \<longrightarrow> location r = JStr '''') \<and>
         (dict_get data ''address'' = JNull \<longrightarrow> address r = '''') \<and>
         (dict_get data ''website'' = JNull \<longrightarrow> website r = JStr '''') \<and>
         (dict_get data ''email'' = JNull \<longrightarrow> email r = JStr '''') \<and>
         (dict_get data ''startDate'' = JNull \<longrightarrow> start_date r = '''') \<and>
         (dict_get data ''endDate'' = JNull \<longrightarrow> end_date r = '''')"
    using r by blast
next
  assume "\<not> well_shaped data"
  then show "parse_event_api L (JObj data) = Inl AttributeError"
    by (rule parse_event_api_raises)
next
  assume "\<forall>kvs. v \<noteq> JObj kvs"
  then show "parse_event_api L v = Inl AttributeError"
    by (cases v) simp_all
qed

theorem parse_event_api_total_on_well_shaped_witness:
  "well_shaped [(''eventId'', JNull), (''address'', JNull), (''startDate'', JNull)] \<and>
   (\<exists>r. parse_event_api ascii_lib
          (JObj [(''eventId'', JNull), (''address'', JNull), (''startDate'', JNull)]) = Inr r \<and>
        event_id r = '''' \<and> event_url r = '''' \<and> name r = JStr '''' \<and>
        tournament_type r = '''' \<and> host r = JStr '''' \<and> location r = JStr '''' \<and>
        address r = '''' \<and> website r = JStr '''' \<and> email r = JStr '''' \<and>
        start_date r = '''' \<and> end_date r = '''') \<and>
   \<not> well_shaped [(''address'', JStr ''123 Main St'')] \<and>
   parse_event_api ascii_lib (JObj [(''address'', JStr ''123 Main St'')]) = Inl AttributeError \<and>
   (\<forall>kvs. JArr [] \<noteq> JObj kvs) \<and>
   parse_event_api ascii_lib (JArr []) = Inl AttributeError"
  using well_shaped_example not_well_shaped_example
    parse_event_api_total_on_well_shaped
      [of "[(''eventId'', JNull), (''address'', JNull), (''startDate'', JNull)]" ascii_lib "JArr []"]
    parse_event_api_total_on_well_shaped
      [of "[(''address'', JStr ''123 Main St'')]" ascii_lib "JArr []"]
  by (simp add: dict_get_def member_of_def)

text \<open>
  The claim as worded (total over every payload) fails on a payload whose \<^verbatim>\<open>address\<close> is a
  str rather than an object, and on one whose \<^verbatim>\<open>startDate\<close> is a number: both raise.
\<close>

theorem parse_event_api_counterexample:
  "parse_event_api ascii_lib (JObj [(''address'', JStr ''123 Main St'')]) = Inl AttributeError \<and>
   parse_event_api ascii_lib (JObj [(''startDate'', JInt 1709251200000)]) = Inl AttributeError"
  by code_simp

subsection \<open>The address of an event\<close>

lemma strip_full_address:
  "py_rstrip '', '' (py_strip ''123 Main\<newline>Springfield, IL 62704'') =
     ''123 Main\<newline>Springfield, IL 62704''"
  by code_simp

lemma well_shaped_full_address:
  "well_shaped
     [(''address'',
       JObj [(''line1'', JStr ''123 Main''), (''city'', JStr ''Springfield''),
             (''state'', JObj [(''abbreviation'', JStr ''IL'')]), (''zip'', JStr ''62704'')])]"
  by (simp add: well_shaped_def dict_or_falsy_def str_or_falsy_def member_of_def dict_get_def)

lemma parse_partial_address:
  "parse_event_api ascii_lib
     (JObj [(''address'', JObj [(''line1'', JStr ''9 Elm St''), (''city'', JStr ''Dayton'')])]) =
   Inr \<lparr>event_id = '''', event_url = '''', name = JStr '''', tournament_type = '''',
        host = JStr '''', location = JStr '''', address = ''9 Elm St\<newline>Dayton'',
        website = JStr '''', email = JStr '''', start_date = '''', end_date = ''''\<rparr>"
  by code_simp

lemma parse_empty_address:
  "parse_event_api ascii_lib (JObj [(''address'', JObj [(''zip'', JNull)])]) =
   Inr \<lparr>event_id = '''', event_url = '''', name = JStr '''', tournament_type = '''',
        host = JStr '''', location = JStr '''', address = '''',
        website = JStr '''', email = JStr '''', start_date = '''', end_date = ''''\<rparr>"
  by code_simp

text \<open>
  C7. The example payload gets the address \<^verbatim>\<open>123 Main\<close>, line feed, \<^verbatim>\<open>Springfield, IL 62704\<close>.
  Whenever \<^verbatim>\<open>parse_event_api\<close> returns a record, its address is the street line, a line
  feed and \<^verbatim>\<open>city, state zip\<close> (each part the empty string when missing), stripped of
  white space and then of every trailing comma and space: it never ends in \<^verbatim>\<open>", "\<close>, nor
  in a comma or a space at all. When all four parts are missing the address is the empty
  string.
\<close>

theorem address_derivation:
  "(\<exists>r. parse_event_api L
          (JObj [(''address'',
                  JObj [(''line1'', JStr ''123 Main''), (''city'', JStr ''Springfield''),
                        (''state'', JObj [(''abbreviation'', JStr ''IL'')]),
                        (''zip'', JStr ''62704'')])]) = Inr r \<and>
        address r = ''123 Main\<newline>Springfield, IL 62704'') \<and>
   (parse_event_api L (JObj data) = Inr r \<longrightarrow>
      address r =
        py_rstrip '', ''
          (py_strip
            (py_str L (py_or (member_of (dict_get data ''address'') ''line1'') (JStr '''')) @
             [CHR 0x0A] @
             py_str L (py_or (member_of (dict_get data ''address'') ''city'') (JStr '''')) @
             '', '' @
             py_str L (py_or (member_of (member_of (dict_get data ''address'') ''state'')
                               ''abbreviation'') (JStr '''')) @
             '' '' @
             py_str L (py_or (member_of (dict_get data ''address'') ''zip'') (JStr '''')))) \<and>
      \<not> suffix '', '' (address r) \<and>
      (address r = [] \<or> last (address r) \<notin> set '', '') \<and>
      (\<not> truthy (member_of (dict_get data ''address'') ''line1'') \<and>
       \<not> truthy (member_of (dict_get data ''address'') ''city'') \<and>
       \<not> truthy (member_of (member_of (dict_get data ''address'') ''state'') ''abbreviation'') \<and>
       \<not> truthy (member_of (dict_get data ''address'') ''zip'') \<longrightarrow>
         address r = ''''))"
proof (intro conjI impI)
  let ?ex = "[(''address'',
               JObj [(''line1'', JStr ''123 Main''), (''city'', JStr ''Springfield''),
                     (''state'', JObj [(''abbreviation'', JStr ''IL'')]),
                     (''zip'', JStr ''62704'')])]"
  obtain r where r: "parse_event_api L (JObj ?ex) = Inr r"
    using parse_event_api_total [OF well_shaped_full_address] by blast
  have "address r = ''123 Main\<newline>Springfield, IL 62704''"
    using parse_event_api_fields(7) [OF r]
    by (simp add: member_of_def dict_get_def py_or_def strip_full_address)
  with r show "\<exists>r. parse_event_api L (JObj ?ex) = Inr r \<and>
      address r = ''123 Main\<newline>Springfield, IL 62704''"
    by blast
next
  assume r: "parse_event_api L (JObj data) = Inr r"
  let ?a = "dict_get data ''address''"
  let ?text = "py_str L (py_or (member_of ?a ''line1'') (JStr '''')) @ [CHR 0x0A] @
               py_str L (py_or (member_of ?a ''city'') (JStr '''')) @ '', '' @
               py_str L (py_or (member_of (member_of ?a ''state'') ''abbreviation'')
                           (JStr '''')) @ '' '' @
               py_str L (py_or (member_of ?a ''zip'') (JStr ''''))"
  show addr: "address r = py_rstrip '', '' (py_strip ?text)"
    using parse_event_api_fields(7) [OF r] by (simp add: Let_def)
  show "\<not> suffix '', '' (address r)"
    unfolding addr by (rule py_rstrip_no_suffix)
  show "address r = [] \<or> last (address r) \<notin> set '', ''"
    unfolding addr by (rule py_rstrip_last)
  show "address r = ''''"
    if "\<not> truthy (member_of ?a ''line1'') \<and> \<not> truthy (member_of ?a ''city'') \<and>
        \<not> truthy (member_of (member_of ?a ''state'') ''abbreviation'') \<and>
        \<not> truthy (member_of ?a ''zip'')"
    using that unfolding addr by (simp add: py_or_def strip_all_missing)
qed

theorem address_derivation_witness:
  "(\<exists>r. parse_event_api ascii_lib
          (JObj [(''address'', JObj [(''line1'', JStr ''9 Elm St''), (''city'', JStr ''Dayton'')])]) =
        Inr r \<and>
        address r = ''9 Elm St\<newline>Dayton'' \<and> \<not> suffix '', '' (address r) \<and>
        (address r = [] \<or> last (address r) \<notin> set '', '')) \<and>
   (\<exists>r. parse_event_api ascii_lib (JObj [(''address'', JObj [(''zip'', JNull)])]) = Inr r \<and>
        \<not> truthy (member_of (JObj [(''zip'', JNull)]) ''line1'') \<and>
        \<not> truthy (member_of (JObj [(''zip'', JNull)]) ''city'') \<and>
        \<not> truthy (member_of (member_of (JObj [(''zip'', JNull)]) ''state'') ''abbreviation'') \<and>
        \<not> truthy (member_of (JObj [(''zip'', JNull)]) ''zip'') \<and>
        address r = '''')"
proof -
  note a = address_derivation
    [of ascii_lib "[(''address'', JObj [(''line1'', JStr ''9 Elm St''), (''city'', JStr ''Dayton'')])]",
      THEN conjunct2, rule_format, OF parse_partial_address]
  note b = address_derivation
    [of ascii_lib "[(''address'', JObj [(''zip'', JNull)])]",
      THEN conjunct2, rule_format, OF parse_empty_address]
  have missing:
    "\<not> truthy (member_of (JObj [(''zip'', JNull)]) ''line1'') \<and>
     \<not> truthy (member_of (JObj [(''zip'', JNull)]) ''city'') \<and>
     \<not> truthy (member_of (member_of (JObj [(''zip'', JNull)]) ''state'') ''abbreviation'') \<and>
     \<not> truthy (member_of (JObj [(''zip'', JNull)]) ''zip'')"
    by (simp add: member_of_def dict_get_def)
  from a [THEN conjunct2] have first: "\<not> suffix '', '' ''9 Elm St\<newline>Dayton'' \<and>
      (''9 Elm St\<newline>Dayton'' = [] \<or> last ''9 Elm St\<newline>Dayton'' \<notin> set '', '')"
    by simp
  from b [THEN conjunct2, THEN conjunct2, THEN conjunct2] missing have second: "address
      \<lparr>event_id = '''', event_url = '''', name = JStr '''', tournament_type = '''',
        host = JStr '''', location = JStr '''', address = '''',
        website = JStr '''', email = JStr '''', start_date = '''', end_date = ''''\<rparr> = ''''"
    by simp
  from first second missing show ?thesis
    unfolding parse_partial_address parse_empty_address by simp
qed

subsection \<open>The loops of the two phases\<close>

lemma mset_as_completed: "mset (as_completed finish futs) = mset futs"
proof -
  have "mset (map snd (sort_key (\<lambda>p. finish (fst p)) (enumerate 0 futs))) =
        mset (map snd (enumerate 0 futs))"
    by (simp only: mset_map mset_sort)
  then show ?thesis
    by (simp add: as_completed_def)
qed

lemma length_as_completed: "length (as_completed finish futs) = length futs"
  by (simp add: as_completed_def)

lemma length_filter_as_completed:
  "length (filter P (as_completed finish futs)) = length (filter P futs)"
proof -
  have "mset (filter P (as_completed finish futs)) = mset (filter P futs)"
    by (simp only: mset_filter mset_as_completed)
  then show ?thesis
    by (rule mset_eq_length)
qed

lemma event_loop_eq:
  "event_loop L futs (rs, es) =
     (rs @ map (\<lambda>p. projr (snd p)) (filter (\<lambda>p. \<not> isl (snd p)) futs),
      es @ map (\<lambda>p. error_record L (projl (snd p)) (fst p)) (filter (\<lambda>p. isl (snd p)) futs))"
proof (induction futs arbitrary: rs es)
  case Nil
  show ?case by simp
next
  case (Cons fut futs)
  obtain item res where fut: "fut = (item, res)"
    by (cases fut)
  show ?case
    by (cases res) (simp_all add: fut Cons.IH)
qed

lemma division_loop_eq:
  "division_loop L futs (rs, es) =
     (rs @ concat (map (\<lambda>p. projr (snd p)) (filter (\<lambda>p. \<not> isl (snd p)) futs)),
      es @ map (\<lambda>p. error_record L (projl (snd p)) (fst p)) (filter (\<lambda>p. isl (snd p)) futs))"
proof (induction futs arbitrary: rs es)
  case Nil
  show ?case by simp
next
  case (Cons fut futs)
  obtain item res where fut: "fut = (item, res)"
    by (cases fut)
  show ?case
    by (cases res) (simp_all add: fut Cons.IH)
qed

lemma concat_skip_empty: "concat (filter (\<lambda>xs. xs \<noteq> []) xss) = concat xss"
  by (induction xss) simp_all

lemma event_futures_nth:
  "i < length events \<Longrightarrow>
   event_futures L net events ! i = (events ! i, snd (fetch_one_event L (net i) (events ! i)))"
  by (simp add: event_futures_def nth_enumerate_eq)

lemma length_event_futures: "length (event_futures L net events) = length events"
  by (simp add: event_futures_def)

text \<open>
  C1. With a positive number of workers the event phase of \<^verbatim>\<open>run\<close> ends with one outcome
  for each of the \<open>N\<close> catalog items, in whatever order the futures complete: the records
  are the results of the calls that returned, the errors are one \<open>ErrorRecord\<close> (with
  \<^verbatim>\<open>where = "detail"\<close> and the item cut to 500 characters) for each of the \<open>M\<close> calls that
  raised, and \<^verbatim>\<open>len(events) + len(eventErrors) == N\<close>. The outcome of an item is that of its
  own call alone.
\<close>

theorem event_phase_one_outcome_per_item:
  assumes "0 < workers"
  shows "\<exists>event_records event_errors.
           event_phase L net finish workers events = Inr (event_records, event_errors) \<and>
           length event_records + length event_errors = length events \<and>
           length event_errors =
             length (filter (\<lambda>p. isl (snd p)) (event_futures L net events)) \<and>
           mset event_errors =
             mset (map (\<lambda>p. error_record L (projl (snd p)) (fst p))
                    (filter (\<lambda>p. isl (snd p)) (event_futures L net events))) \<and>
           mset event_records =
             mset (map (\<lambda>p. projr (snd p))
                    (filter (\<lambda>p. \<not> isl (snd p)) (event_futures L net events))) \<and>
           (\<forall>e \<in> set event_errors. err_where e = ''detail'' \<and> length (err_item e) \<le> 500) \<and>
           (\<forall>i < length events.
              event_futures L net events ! i =
                (events ! i, snd (fetch_one_event L (net i) (events ! i))))"
proof -
  let ?futs = "event_futures L net events"
  let ?done = "as_completed finish ?futs"
  let ?recs = "map (\<lambda>p. projr (snd p)) (filter (\<lambda>p. \<not> isl (snd p)) ?done)"
  let ?errs = "map (\<lambda>p. error_record L (projl (snd p)) (fst p)) (filter (\<lambda>p. isl (snd p)) ?done)"
  have phase: "event_phase L net finish workers events = Inr (?recs, ?errs)"
    using assms by (simp add: event_phase_def event_loop_eq)
  have "length ?recs + length ?errs = length ?done"
    by (simp add: sum_length_filter_compl add.commute)
  then have total: "length ?recs + length ?errs = length events"
    by (simp add: length_as_completed length_event_futures)
  have failed: "length ?errs = length (filter (\<lambda>p. isl (snd p)) ?futs)"
    by (simp add: length_filter_as_completed)
  have errs: "mset ?errs =
      mset (map (\<lambda>p. error_record L (projl (snd p)) (fst p)) (filter (\<lambda>p. isl (snd p)) ?futs))"
    by (simp only: mset_map mset_filter mset_as_completed)
  have recs: "mset ?recs = mset (map (\<lambda>p. projr (snd p)) (filter (\<lambda>p. \<not> isl (snd p)) ?futs))"
    by (simp only: mset_map mset_filter mset_as_completed)
  have shape: "\<forall>e \<in> set ?errs. err_where e = ''detail'' \<and> length (err_item e) \<le> 500"
    by (auto simp: error_record_def)
  have own: "\<forall>i < length events.
      ?futs ! i = (events ! i, snd (fetch_one_event L (net i) (events ! i)))"
    by (simp add: event_futures_nth)
  from phase total failed errs recs shape own show ?thesis
    by blast
qed

lemma event_phase_example:
  "event_phase ascii_lib
     (\<lambda>i url. if i = 1 then Inl Timeout else Inr (JObj [(''eventId'', JInt 5)]))
     (\<lambda>i. 3 - i) 8
     [JObj [(''eventId'', JInt 5)], JObj [(''eventId'', JInt 6)],
      JObj [(''eventId'', JNull), (''eventSchedulerId'', JInt 9)]] =
   Inr ([\<lparr>event_id = ''5'', event_url = ''https://www.advancedeventsystems.com/events/5'',
           name = JStr '''', tournament_type = '''', host = JStr '''', location = JStr '''',
           address = '''', website = JStr '''', email = JStr '''', start_date = '''',
           end_date = ''''\<rparr>,
         \<lparr>event_id = ''5'', event_url = ''https://www.advancedeventsystems.com/events/5'',
           name = JStr '''', tournament_type = '''', host = JStr '''', location = JStr '''',
           address = '''', website = JStr '''', email = JStr '''', start_date = '''',
           end_date = ''''\<rparr>],
        [\<lparr>err_where = ''detail'', err_message = ''Timeout()'',
           err_item = ''{'' @ [CHR 0x22] @ ''eventId'' @ [CHR 0x22] @ '': 6}''\<rparr>])"
  by code_simp

theorem event_phase_one_outcome_per_item_witness:
  "0 < (8 :: int) \<and>
   (\<exists>event_records event_errors.
      event_phase ascii_lib
        (\<lambda>i url. if i = 1 then Inl Timeout else Inr (JObj [(''eventId'', JInt 5)]))
        (\<lambda>i. 3 - i) 8
        [JObj [(''eventId'', JInt 5)], JObj [(''eventId'', JInt 6)],
         JObj [(''eventId'', JNull), (''eventSchedulerId'', JInt 9)]] =
        Inr (event_records, event_errors) \<and>
      length event_records + length event_errors = 3 \<and>
      length event_records = 2 \<and> length event_errors = 1 \<and>
      map err_message event_errors = [''Timeout()''])"
proof -
  have w: "0 < (8 :: int)" by simp
  show ?thesis
    using w event_phase_one_outcome_per_item [OF w, of ascii_lib
      "\<lambda>i url. if i = 1 then Inl Timeout else Inr (JObj [(''eventId'', JInt 5)])"
      "\<lambda>i. 3 - i"
      "[JObj [(''eventId'', JInt 5)], JObj [(''eventId'', JInt 6)],
        JObj [(''eventId'', JNull), (''eventSchedulerId'', JInt 9)]]"]
    unfolding event_phase_example by simp
qed

subsection \<open>The division phase\<close>

lemma division_phase_example:
  "division_phase ascii_lib (\<lambda>i url. Inl Timeout) (\<lambda>i. 0) 1
     [JObj [(''eventSchedulerId'', JInt 9)]] = Inr ([], [])"
  by code_simp

lemma division_phase_mixed_example:
  "division_phase ascii_lib
     (\<lambda>i url. if i = 0 then Inr (JArr []) else if i = 1 then Inl Timeout
        else Inr (JObj [(''value'', JArr [JObj [(''entryFee'', JInt 250)],
                                            JObj [(''description'', JStr ''18 Open'')]])]))
     (\<lambda>i. 3 - i) 8
     [JObj [(''eventId'', JInt 5)], JObj [(''eventId'', JInt 6)], JObj [(''eventId'', JInt 7)]] =
   Inr ([\<lparr>description = '''', entry_fee = ''250'', event_division_assignment_id = '''',
           division_event_id = '''', maximum_teams = ''''\<rparr>,
         \<lparr>description = ''18 Open'', entry_fee = ''0'', event_division_assignment_id = '''',
           division_event_id = '''', maximum_teams = ''''\<rparr>],
        [\<lparr>err_where = ''detail'', err_message = ''Timeout()'',
           err_item = ''{'' @ [CHR 0x22] @ ''eventId'' @ [CHR 0x22] @ '': 6}''\<rparr>])"
  by code_simp

text \<open>
  C9. With a positive number of workers the division phase ends with \<open>division_records\<close>
  the concatenation, in completion order, of the lists of the calls that returned, which
  is the concatenation of the non-empty ones, and with one \<open>ErrorRecord\<close> for each call
  that raised. A future that returns the empty list changes neither list. So the two
  lengths need not add up to the number of items: for the single item without
  \<^verbatim>\<open>eventId\<close> both lists are empty.
\<close>

theorem division_phase_outcomes:
  "(0 < workers \<longrightarrow>
      (\<exists>division_records division_errors.
         division_phase L net finish workers events = Inr (division_records, division_errors) \<and>
         division_records =
           concat (map (\<lambda>p. projr (snd p))
                    (filter (\<lambda>p. \<not> isl (snd p))
                      (as_completed finish (division_futures L net events)))) \<and>
         division_records =
           concat (filter (\<lambda>recs. recs \<noteq> [])
                    (map (\<lambda>p. projr (snd p))
                      (filter (\<lambda>p. \<not> isl (snd p))
                        (as_completed finish (division_futures L net events))))) \<and>
         division_errors =
           map (\<lambda>p. error_record L (projl (snd p)) (fst p))
             (filter (\<lambda>p. isl (snd p))
               (as_completed finish (division_futures L net events))) \<and>
         length division_errors =
           length (filter (\<lambda>p. isl (snd p)) (division_futures L net events)))) \<and>
   division_loop L ((item, Inr []) # futs) acc = division_loop L futs acc \<and>
   (\<exists>division_records division_errors.
      division_phase ascii_lib (\<lambda>i url. Inl Timeout) (\<lambda>i. 0) 1
        [JObj [(''eventSchedulerId'', JInt 9)]] = Inr (division_records, division_errors) \<and>
      length division_records + length division_errors \<noteq>
        length [JObj [(''eventSchedulerId'', JInt 9)]])"
proof (intro conjI impI)
  assume "0 < workers"
  then show "\<exists>division_records division_errors.
         division_phase L net finish workers events = Inr (division_records, division_errors) \<and>
         division_records =
           concat (map (\<lambda>p. projr (snd p))
                    (filter (\<lambda>p. \<not> isl (snd p))
                      (as_completed finish (division_futures L net events)))) \<and>
         division_records =
           concat (filter (\<lambda>recs. recs \<noteq> [])
                    (map (\<lambda>p. projr (snd p))
                      (filter (\<lambda>p. \<not> isl (snd p))
                        (as_completed finish (division_futures L net events))))) \<and>
         division_errors =
           map (\<lambda>p. error_record L (projl (snd p)) (fst p))
             (filter (\<lambda>p. isl (snd p))
               (as_completed finish (division_futures L net events))) \<and>
         length division_errors =
           length (filter (\<lambda>p. isl (snd p)) (division_futures L net events))"
    by (simp add: division_phase_def division_loop_eq concat_skip_empty
        length_filter_as_completed)
next
  show "division_loop L ((item, Inr []) # futs) acc = division_loop L futs acc"
    by (cases acc) simp
next
  show "\<exists>division_records division_errors.
      division_phase ascii_lib (\<lambda>i url. Inl Timeout) (\<lambda>i. 0) 1
        [JObj [(''eventSchedulerId'', JInt 9)]] = Inr (division_records, division_errors) \<and>
      length division_records + length division_errors \<noteq>
        length [JObj [(''eventSchedulerId'', JInt 9)]]"
    unfolding division_phase_example by simp
qed

theorem division_phase_outcomes_witness:
  "0 < (8 :: int) \<and>
   (\<exists>division_records division_errors.
      division_phase ascii_lib
        (\<lambda>i url. if i = 0 then Inr (JArr []) else if i = 1 then Inl Timeout
           else Inr (JObj [(''value'', JArr [JObj [(''entryFee'', JInt 250)],
                                               JObj [(''description'', JStr ''18 Open'')]])]))
        (\<lambda>i. 3 - i) 8
        [JObj [(''eventId'', JInt 5)], JObj [(''eventId'', JInt 6)], JObj [(''eventId'', JInt 7)]] =
        Inr (division_records, division_errors) \<and>
      length division_records = 2 \<and> length division_errors = 1 \<and>
      map entry_fee division_records = [''250'', ''0''] \<and>
      map err_message division_errors = [''Timeout()''])"
proof -
  have w: "0 < (8 :: int)" by simp
  show ?thesis
    using w division_phase_outcomes [of 8 ascii_lib
      "\<lambda>i url. if i = 0 then Inr (JArr []) else if i = 1 then Inl Timeout
           else Inr (JObj [(''value'', JArr [JObj [(''entryFee'', JInt 250)],
                                               JObj [(''description'', JStr ''18 Open'')]])])"
      "\<lambda>i. 3 - i"
      "[JObj [(''eventId'', JInt 5)], JObj [(''eventId'', JInt 6)], JObj [(''eventId'', JInt 7)]]"]
    unfolding division_phase_mixed_example by (simp (no_asm))
qed

subsection \<open>The endpoint of an event\<close>

lemma as_completed_single: "as_completed finish [x] = [x]"
  by (simp add: as_completed_def)

lemma fetch_scheduler_none:
  "fetch_one_event ascii_lib (\<lambda>url. Inr (JObj []))
     (JObj [(''eventId'', JNull), (''eventSchedulerId'', JNull)]) =
   ([''https://www.advancedeventsystems.com/api/landing/events/scheduler/None''],
    Inr \<lparr>event_id = '''', event_url = '''', name = JStr '''', tournament_type = '''',
         host = JStr '''', location = JStr '''', address = '''', website = JStr '''',
         email = JStr '''', start_date = '''', end_date = ''''\<rparr>)"
  by code_simp

text \<open>
  C6, as the code has it. For an item that is a dict, \<^verbatim>\<open>_fetch_one_event\<close> requests the
  event endpoint with \<^verbatim>\<open>str(eventId)\<close> when \<^verbatim>\<open>eventId\<close> is present and not null, and the
  scheduler endpoint with \<^verbatim>\<open>str(eventSchedulerId)\<close> when \<^verbatim>\<open>eventId\<close> is null and the key
  \<^verbatim>\<open>eventSchedulerId\<close> is present; the result is that of the one request, normalized. An
  item without the key \<^verbatim>\<open>eventId\<close>, or with a null \<^verbatim>\<open>eventId\<close> and without the key
  \<^verbatim>\<open>eventSchedulerId\<close>, raises KeyError before any request. A call that raises becomes an
  \<open>ErrorRecord\<close> of the event phase, which goes on.
\<close>

theorem fetch_one_event_endpoint:
  "(map_of item ''eventId'' = Some eid \<and> eid \<noteq> JNull \<longrightarrow>
      fetch_one_event L net (JObj item) =
        ([''https://www.advancedeventsystems.com/api/landing/events/'' @ py_str L eid],
         and_then (net (''https://www.advancedeventsystems.com/api/landing/events/'' @ py_str L eid))
           (parse_event_api L))) \<and>
   (map_of item ''eventId'' = Some JNull \<and> map_of item ''eventSchedulerId'' = Some sid \<longrightarrow>
      fetch_one_event L net (JObj item) =
        ([''https://www.advancedeventsystems.com/api/landing/events/scheduler/'' @ py_str L sid],
         and_then
           (net (''https://www.advancedeventsystems.com/api/landing/events/scheduler/'' @
                 py_str L sid))
           (parse_event_api L))) \<and>
   (map_of item ''eventId'' = None \<longrightarrow>
      fetch_one_event L net (JObj item) = ([], Inl (KeyError ''eventId''))) \<and>
   (map_of item ''eventId'' = Some JNull \<and> map_of item ''eventSchedulerId'' = None \<longrightarrow>
      fetch_one_event L net (JObj item) = ([], Inl (KeyError ''eventSchedulerId''))) \<and>
   (0 < workers \<and> snd (fetch_one_event L (nets 0) event) = Inl e \<longrightarrow>
      event_phase L nets finish workers [event] = Inr ([], [error_record L e event]))"
  by (simp add: fetch_one_event_def event_detail_url_def event_phase_def event_futures_def
      as_completed_single)

theorem fetch_one_event_endpoint_witness:
  "map_of [(''eventId'', JInt 77)] ''eventId'' = Some (JInt 77) \<and> JInt 77 \<noteq> JNull \<and>
   fst (fetch_one_event ascii_lib (\<lambda>url. Inl (HTTPError 404)) (JObj [(''eventId'', JInt 77)])) =
     [''https://www.advancedeventsystems.com/api/landing/events/77''] \<and>
   map_of [(''eventId'', JNull), (''eventSchedulerId'', JInt 9)] ''eventId'' = Some JNull \<and>
   map_of [(''eventId'', JNull), (''eventSchedulerId'', JInt 9)] ''eventSchedulerId'' =
     Some (JInt 9) \<and>
   fst (fetch_one_event ascii_lib (\<lambda>url. Inl (HTTPError 404))
          (JObj [(''eventId'', JNull), (''eventSchedulerId'', JInt 9)])) =
     [''https://www.advancedeventsystems.com/api/landing/events/scheduler/9''] \<and>
   map_of [(''name'', JStr ''Open'')] ''eventId'' = None \<and>
   fetch_one_event ascii_lib (\<lambda>url. Inl (HTTPError 404)) (JObj [(''name'', JStr ''Open'')]) =
     ([], Inl (KeyError ''eventId'')) \<and>
   map_of [(''eventId'', JNull)] ''eventId'' = Some JNull \<and>
   map_of [(''eventId'', JNull)] ''eventSchedulerId'' = None \<and>
   fetch_one_event ascii_lib (\<lambda>url. Inl (HTTPError 404)) (JObj [(''eventId'', JNull)]) =
     ([], Inl (KeyError ''eventSchedulerId'')) \<and>
   0 < (8 :: int) \<and>
   snd (fetch_one_event ascii_lib (\<lambda>url. Inl (HTTPError 404)) (JObj [(''eventId'', JNull)])) =
     Inl (KeyError ''eventSchedulerId'') \<and>
   event_phase ascii_lib (\<lambda>i url. Inl (HTTPError 404)) (\<lambda>i. 0) 8 [JObj [(''eventId'', JNull)]] =
     Inr ([], [error_record ascii_lib (KeyError ''eventSchedulerId'') (JObj [(''eventId'', JNull)])])"
proof -
  have s77: "show_int 77 = ''77''" and s9: "show_int 9 = ''9''"
    by code_simp+
  note a = fetch_one_event_endpoint
    [of "[(''eventId'', JInt 77)]" "JInt 77" ascii_lib "\<lambda>url. Inl (HTTPError 404)"]
  note b = fetch_one_event_endpoint
    [of "[(''eventId'', JNull), (''eventSchedulerId'', JInt 9)]" _ ascii_lib
      "\<lambda>url. Inl (HTTPError 404)" "JInt 9"]
  note c = fetch_one_event_endpoint
    [of "[(''name'', JStr ''Open'')]" _ ascii_lib "\<lambda>url. Inl (HTTPError 404)"]
  note d = fetch_one_event_endpoint
    [of "[(''eventId'', JNull)]" _ ascii_lib "\<lambda>url. Inl (HTTPError 404)" _ 8
      "\<lambda>i url. Inl (HTTPError 404)" "JObj [(''eventId'', JNull)]" "KeyError ''eventSchedulerId''"
      "\<lambda>i. 0"]
  show ?thesis
    using a b c d by (simp add: s77 s9)
qed

text \<open>
  The claim as worded (an item carrying neither identifier fails) does not hold of an
  item whose two identifiers are both null: the code requests
  \<^verbatim>\<open>.../events/scheduler/None\<close>, and where the server answers that request the item yields
  a record, not an error.
\<close>

theorem fetch_one_event_counterexample:
  "fetch_one_event ascii_lib (\<lambda>url. Inr (JObj []))
     (JObj [(''eventId'', JNull), (''eventSchedulerId'', JNull)]) =
   ([''https://www.advancedeventsystems.com/api/landing/events/scheduler/None''],
    Inr \<lparr>event_id = '''', event_url = '''', name = JStr '''', tournament_type = '''',
         host = JStr '''', location = JStr '''', address = '''', website = JStr '''',
         email = JStr '''', start_date = '''', end_date = ''''\<rparr>)"
  by (rule fetch_scheduler_none)

end
